theory Spec2Isabelle
  imports Complex_Main "HOL-Library.Word"
begin

unbundle bit_operations_syntax

section \<open>Packets\<close>

text \<open>
  \<open>BLEPacket\<close> as the callers construct it (its module, \<open>src/interfaces/base.py\<close>,
  is not among the sources): the fields every constructor call of the tests passes.
  The optional \<open>metadata\<close> dictionary is read by no function modelled here and is left out.
\<close>

type_synonym byte = "8 word"

datatype DeviceType = MACBOOK_BLE | SNIFFER_DONGLE

record BLEPacket =
  timestamp :: real
  source :: DeviceType
  address :: string
  rssi :: int
  data :: "byte list"
  packet_type :: string

section \<open>Auto-connect manager (src/interfaces/auto\_connect\_manager.py)\<close>

text \<open>
  Python floats are modelled as exact reals and Python integers as \<open>int\<close>.
  A \<open>datetime\<close> and the result of \<open>time.time()\<close> are a real number of seconds;
  every function that reads the clock takes the reading as its argument \<open>now\<close>.
\<close>

datatype ConnectionState =
  DISCONNECTED | CONNECTING | CONNECTED | RECONNECTING | FAILED | PAUSED

datatype RetryStrategy = EXPONENTIAL_BACKOFF | FIXED_INTERVAL | LINEAR_BACKOFF

record ConnectionConfig =
  max_retries :: int
  initial_retry_delay :: real
  max_retry_delay :: real
  retry_strategy :: RetryStrategy
  connection_timeout :: real
  stability_check_interval :: real
  reconnect_on_failure :: bool
  health_check_interval :: real
  max_consecutive_failures :: int

definition default_ConnectionConfig :: ConnectionConfig where
  "default_ConnectionConfig =
     \<lparr>max_retries = 5, initial_retry_delay = 1, max_retry_delay = 60,
      retry_strategy = EXPONENTIAL_BACKOFF, connection_timeout = 30,
      stability_check_interval = 10, reconnect_on_failure = True,
      health_check_interval = 30, max_consecutive_failures = 3\<rparr>"

record ConnectionMetrics =
  total_attempts :: int
  successful_connections :: int
  failed_connections :: int
  last_connected :: "real option"
  last_failure :: "real option"
  average_connection_time :: real
  connection_uptime :: real
  stability_score :: real
  consecutive_failures :: int

definition new_ConnectionMetrics :: ConnectionMetrics where
  "new_ConnectionMetrics =
     \<lparr>total_attempts = 0, successful_connections = 0, failed_connections = 0,
      last_connected = None, last_failure = None, average_connection_time = 0,
      connection_uptime = 0, stability_score = 0, consecutive_failures = 0\<rparr>"

record ManagedConnection =
  address :: string
  config :: ConnectionConfig
  state :: ConnectionState
  metrics :: ConnectionMetrics
  retry_count :: int
  connection_start_time :: "real option"
  last_activity :: "real option"
  is_enabled :: bool
  pause_until :: "real option"

text \<open>\<open>ManagedConnection.__init__\<close>.\<close>

definition new_ManagedConnection :: "string \<Rightarrow> ConnectionConfig \<Rightarrow> ManagedConnection" where
  "new_ManagedConnection a cfg =
     \<lparr>address = a, config = cfg, state = DISCONNECTED, metrics = new_ConnectionMetrics,
      retry_count = 0, connection_start_time = None, last_activity = None,
      is_enabled = True, pause_until = None\<rparr>"

text \<open>The exceptions of the interpreter that the methods below can raise.\<close>

datatype PyError = ZeroDivisionError | OverflowError

text \<open>
  The delays of the configuration are floats (\<open>initial_retry_delay: float = 1.0\<close>) and
  the retry count is an int. A float is modelled by the real number it denotes and float
  arithmetic as exact: rounding, infinities and NaN are not modelled. What is modelled is
  the exception of mixed arithmetic: \<open>float * int\<close> first converts the int to a
  float, and that conversion raises \<open>OverflowError\<close> (``int too large to convert to
  float'') for an int that rounds beyond the largest float, that is from
  \<open>2^1024 - 2^970\<close> on in magnitude.
\<close>

definition float_of_pyint :: "int \<Rightarrow> PyError + real" where
  "float_of_pyint k =
     (if \<bar>k\<bar> < 2 ^ 1024 - 2 ^ 970 then Inr (real_of_int k) else Inl OverflowError)"

text \<open>
  \<open>2 ** n\<close> for an int \<open>n\<close> is the int \<open>2^n\<close> when \<open>n\<close> is not negative;
  for a negative \<open>n\<close> it is the float power \<open>float(2) ** float(n)\<close>, which
  converts \<open>n\<close> first.
\<close>

datatype PyNumber = PyInt int | PyFloat real

definition py_pow2 :: "int \<Rightarrow> PyError + PyNumber" where
  "py_pow2 n =
     (if 0 \<le> n then Inr (PyInt (2 ^ nat n))
      else case float_of_pyint n of
             Inl e \<Rightarrow> Inl e
           | Inr x \<Rightarrow> Inr (PyFloat (1 / 2 ^ nat (- n))))"

text \<open>\<open>x * y\<close> for a float \<open>x\<close>.\<close>

fun float_times :: "real \<Rightarrow> PyNumber \<Rightarrow> PyError + real" where
  "float_times x (PyInt k) =
     (case float_of_pyint k of Inl e \<Rightarrow> Inl e | Inr y \<Rightarrow> Inr (x * y))"
| "float_times x (PyFloat y) = Inr (x * y)"

text \<open>\<open>ManagedConnection.calculate_retry_delay\<close>; the final \<open>min\<close> follows all
  three branches.\<close>

definition calculate_retry_delay :: "ManagedConnection \<Rightarrow> PyError + real" where
  "calculate_retry_delay c =
     (case (if retry_strategy (config c) = EXPONENTIAL_BACKOFF then
              (case py_pow2 (retry_count c) of
                 Inl e \<Rightarrow> Inl e
               | Inr p \<Rightarrow> float_times (initial_retry_delay (config c)) p)
            else if retry_strategy (config c) = LINEAR_BACKOFF then
              float_times (initial_retry_delay (config c)) (PyInt (1 + retry_count c))
            else Inr (initial_retry_delay (config c))) of
        Inl e \<Rightarrow> Inl e
      | Inr delay \<Rightarrow> Inr (min delay (max_retry_delay (config c))))"

text \<open>
  \<open>update_metrics\<close> divides twice: by \<open>successful_connections\<close> when a truthy
  \<open>connection_time\<close> is given (neither \<open>None\<close> nor \<open>0\<close>), and by
  \<open>total_attempts\<close> for the stability score. Either raises when the divisor is 0.
\<close>

definition update_metrics ::
  "real \<Rightarrow> bool \<Rightarrow> real option \<Rightarrow> ManagedConnection \<Rightarrow> PyError + ManagedConnection" where
  "update_metrics now success connection_time c =
     (let m1 = (metrics c)\<lparr>total_attempts := total_attempts (metrics c) + 1\<rparr>;
          r = (if success then
                 (let m2 = m1\<lparr>successful_connections := successful_connections m1 + 1,
                              last_connected := Some now,
                              consecutive_failures := 0\<rparr>
                  in if connection_time \<noteq> None \<and> connection_time \<noteq> Some 0 then
                       (let total_time = average_connection_time m2
                                           * real_of_int (successful_connections m2 - 1)
                        in if successful_connections m2 = 0 then Inl ZeroDivisionError
                           else Inr (m2\<lparr>average_connection_time :=
                                          (total_time + the connection_time)
                                            / real_of_int (successful_connections m2)\<rparr>))
                     else Inr m2)
               else Inr (m1\<lparr>failed_connections := failed_connections m1 + 1,
                             last_failure := Some now,
                             consecutive_failures := consecutive_failures m1 + 1\<rparr>))
      in case r of
           Inl e \<Rightarrow> Inl e
         | Inr m3 \<Rightarrow>
             if total_attempts m3 = 0 then Inl ZeroDivisionError
             else Inr (c\<lparr>metrics := m3\<lparr>stability_score :=
                         real_of_int (successful_connections m3)
                           / real_of_int (total_attempts m3)\<rparr>\<rparr>))"

text \<open>A sequence of \<open>update_metrics\<close> calls, each with its clock reading, outcome and
  connection time; the first exception ends it.\<close>

fun update_metrics_calls ::
  "(real \<times> bool \<times> real option) list \<Rightarrow> ManagedConnection \<Rightarrow> PyError + ManagedConnection" where
  "update_metrics_calls [] c = Inr c"
| "update_metrics_calls ((now, success, connection_time) # calls) c =
     (case update_metrics now success connection_time c of
        Inl e \<Rightarrow> Inl e
      | Inr c' \<Rightarrow> update_metrics_calls calls c')"

text \<open>A \<open>datetime\<close> is always truthy, so \<open>self.pause_until and now < self.pause_until\<close>
  is false exactly when \<open>pause_until\<close> is \<open>None\<close> or already reached.\<close>

definition should_retry :: "real \<Rightarrow> ManagedConnection \<Rightarrow> bool" where
  "should_retry now c =
     (if \<not> is_enabled c then False
      else if (case pause_until c of None \<Rightarrow> False | Some t \<Rightarrow> now < t) then False
      else if retry_count c \<ge> max_retries (config c) then False
      else if consecutive_failures (metrics c) \<ge> max_consecutive_failures (config c) then False
      else True)"

definition pause :: "real \<Rightarrow> real \<Rightarrow> ManagedConnection \<Rightarrow> ManagedConnection" where
  "pause now duration c = c\<lparr>pause_until := Some (now + duration), state := PAUSED\<rparr>"

subsection \<open>The manager\<close>

text \<open>
  The manager's state: its dictionaries, the running flag, and the events handed to the
  registered callbacks, in the order \<open>_emit_event\<close> was called. A task of
  \<open>connection_tasks\<close> is represented by its address: cancelling and deleting it
  removes the address, \<open>asyncio.create_task\<close> adds it.
\<close>

datatype EventData =
  NoData
  | ConfigData ConnectionConfig
  | DurationData real

type_synonym Event = "string \<times> string \<times> EventData"

record AutoConnectManager =
  default_config :: ConnectionConfig
  managed_connections :: "string \<rightharpoonup> ManagedConnection"
  connection_tasks :: "string set"
  running :: bool
  emitted :: "Event list"

definition new_AutoConnectManager :: "ConnectionConfig option \<Rightarrow> AutoConnectManager" where
  "new_AutoConnectManager cfg =
     \<lparr>default_config = (case cfg of None \<Rightarrow> default_ConnectionConfig | Some c \<Rightarrow> c),
      managed_connections = Map.empty, connection_tasks = {}, running = False,
      emitted = []\<rparr>"

definition emit_event ::
  "string \<Rightarrow> string \<Rightarrow> EventData \<Rightarrow> AutoConnectManager \<Rightarrow> AutoConnectManager" where
  "emit_event a event_type d m = m\<lparr>emitted := emitted m @ [(a, event_type, d)]\<rparr>"

definition add_managed_device ::
  "string \<Rightarrow> ConnectionConfig option \<Rightarrow> AutoConnectManager \<Rightarrow> AutoConnectManager" where
  "add_managed_device a cfg m =
     (let device_config = (case cfg of None \<Rightarrow> default_config m | Some c \<Rightarrow> c)
      in emit_event a ''device_added'' (ConfigData device_config)
           (m\<lparr>managed_connections :=
                 (managed_connections m)(a \<mapsto> new_ManagedConnection a device_config)\<rparr>))"

definition remove_managed_device :: "string \<Rightarrow> AutoConnectManager \<Rightarrow> AutoConnectManager" where
  "remove_managed_device a m =
     (if a \<in> dom (managed_connections m) then
        emit_event a ''device_removed'' NoData
          (m\<lparr>connection_tasks := connection_tasks m - {a},
              managed_connections := (managed_connections m)(a := None)\<rparr>)
      else m)"

definition enable_device :: "string \<Rightarrow> AutoConnectManager \<Rightarrow> AutoConnectManager" where
  "enable_device a m =
     (case managed_connections m a of
        Some c \<Rightarrow>
          emit_event a ''device_enabled'' NoData
            (m\<lparr>managed_connections := (managed_connections m)(a \<mapsto> c\<lparr>is_enabled := True\<rparr>)\<rparr>)
      | None \<Rightarrow> m)"

definition disable_device :: "string \<Rightarrow> AutoConnectManager \<Rightarrow> AutoConnectManager" where
  "disable_device a m =
     (case managed_connections m a of
        Some c \<Rightarrow>
          emit_event a ''device_disabled'' NoData
            (m\<lparr>managed_connections := (managed_connections m)(a \<mapsto> c\<lparr>is_enabled := False\<rparr>),
                connection_tasks := connection_tasks m - {a}\<rparr>)
      | None \<Rightarrow> m)"

definition pause_device ::
  "real \<Rightarrow> string \<Rightarrow> real \<Rightarrow> AutoConnectManager \<Rightarrow> AutoConnectManager" where
  "pause_device now a duration m =
     (case managed_connections m a of
        Some c \<Rightarrow>
          emit_event a ''device_paused'' (DurationData duration)
            (m\<lparr>managed_connections := (managed_connections m)(a \<mapsto> pause now duration c)\<rparr>)
      | None \<Rightarrow> m)"

text \<open>\<open>_on_ble_event\<close>: the callback the manager registers with the radio interface.\<close>

definition on_ble_event :: "real \<Rightarrow> BLEPacket \<Rightarrow> AutoConnectManager \<Rightarrow> AutoConnectManager" where
  "on_ble_event now packet m =
     (let a = BLEPacket.address packet in
      case managed_connections m a of
        None \<Rightarrow> m
      | Some c0 \<Rightarrow>
          (let c1 = c0\<lparr>last_activity := Some now\<rparr> in
           if packet_type packet = ''connection'' then
             m\<lparr>managed_connections :=
                 (managed_connections m)(a \<mapsto> c1\<lparr>state := CONNECTED, retry_count := 0\<rparr>)\<rparr>
           else if packet_type packet = ''disconnection'' then
             (if reconnect_on_failure (config c1) then
                m\<lparr>managed_connections :=
                    (managed_connections m)(a \<mapsto> c1\<lparr>state := DISCONNECTED, retry_count := 0\<rparr>),
                  connection_tasks :=
                    (if a \<notin> connection_tasks m \<and> is_enabled c1
                     then insert a (connection_tasks m) else connection_tasks m)\<rparr>
              else m\<lparr>managed_connections := (managed_connections m)(a \<mapsto> c1)\<rparr>)
           else m\<lparr>managed_connections := (managed_connections m)(a \<mapsto> c1)\<rparr>))"

text \<open>The dictionary \<open>get_connection_status\<close> returns, as a record; the state and the
  pause time stand for their string renderings.\<close>

record ConnectionStatus =
  status_address :: string
  status_state :: ConnectionState
  status_metrics :: ConnectionMetrics
  status_retry_count :: int
  status_enabled :: bool
  status_paused_until :: "real option"

definition get_connection_status :: "string \<Rightarrow> AutoConnectManager \<Rightarrow> ConnectionStatus option" where
  "get_connection_status a m =
     (case managed_connections m a of
        Some c \<Rightarrow>
          Some \<lparr>status_address = a, status_state = state c, status_metrics = metrics c,
                status_retry_count = retry_count c, status_enabled = is_enabled c,
                status_paused_until = pause_until c\<rparr>
      | None \<Rightarrow> None)"

text \<open>The invariant of the metrics that \<open>update_metrics\<close> maintains.\<close>

definition metrics_ok :: "ManagedConnection \<Rightarrow> bool" where
  "metrics_ok c \<longleftrightarrow>
     0 \<le> successful_connections (metrics c) \<and> 0 \<le> failed_connections (metrics c)
   \<and> successful_connections (metrics c) + failed_connections (metrics c)
       = total_attempts (metrics c)
   \<and> stability_score (metrics c)
       = real_of_int (successful_connections (metrics c))
           / real_of_int (max 1 (total_attempts (metrics c)))"

subsection \<open>A device after three failed attempts\<close>

text \<open>
  The state of a device added with the default configuration after three failed
  connection attempts: three retries, three consecutive failures, state \<open>FAILED\<close>.
\<close>

definition exhausted_connection :: ManagedConnection where
  "exhausted_connection =
     (new_ManagedConnection ''AA:BB:CC:DD:EE:FF'' default_ConnectionConfig)
       \<lparr>state := FAILED,
        metrics := new_ConnectionMetrics\<lparr>total_attempts := 3, failed_connections := 3,
                                        last_failure := Some 0, consecutive_failures := 3\<rparr>,
        retry_count := 3\<rparr>"

definition exhausted_manager :: AutoConnectManager where
  "exhausted_manager =
     (new_AutoConnectManager None)
       \<lparr>managed_connections := [''AA:BB:CC:DD:EE:FF'' \<mapsto> exhausted_connection]\<rparr>"

definition connection_packet :: BLEPacket where
  "connection_packet =
     \<lparr>timestamp = 0, source = MACBOOK_BLE, address = ''AA:BB:CC:DD:EE:FF'', rssi = - 50,
      data = [], packet_type = ''connection''\<rparr>"

section \<open>BLE crypto (src/utils/ble\_crypto.py, absent from the sources)\<close>

text \<open>
  The module is imported by \<open>tests/test_ble_crypto.py\<close> and
  \<open>tests/test_ble_crypto_xor.py\<close> but is not among the sources. Its functions are
  modelled from the specification (section 4.3); the error cases are the ones the tests
  expect, one constructor of \<open>BLEDecryptionError\<close> for each message they match.
\<close>

datatype BLEDecryptionError =
  KeyMustBe16Bytes | NonceMustBe13Bytes | InvalidTagLength
  | IVMustBe8Bytes | PacketCounterTooLarge
  | XORKeyCannotBeEmpty | CiphertextCannotBeEmpty

text \<open>\<open>int.to_bytes(k, 'little')\<close> and \<open>int.from_bytes(bs, 'little')\<close>.\<close>

fun le_bytes :: "nat \<Rightarrow> nat \<Rightarrow> byte list" where
  "le_bytes 0 n = []"
| "le_bytes (Suc k) n = word_of_nat (n mod 256) # le_bytes k (n div 256)"

fun from_le :: "byte list \<Rightarrow> nat" where
  "from_le [] = 0"
| "from_le (b # bs) = unat b + 256 * from_le bs"

text \<open>
  Modelled from the spec: \<open>construct_ble_nonce\<close> is missing. The nonce is the 8-byte
  IV followed by the 5-byte little-endian packet counter, whose last byte carries the
  direction in its high bit (1 for master to slave, 0 for slave to master). A counter of
  \<open>2^39\<close> or more is refused, and so is an IV that is not 8 bytes long
  (\<open>test_invalid_iv_length_in_nonce_construction\<close>).
\<close>

definition construct_ble_nonce ::
  "byte list \<Rightarrow> nat \<Rightarrow> bool \<Rightarrow> BLEDecryptionError + byte list" where
  "construct_ble_nonce iv packet_counter is_master_to_slave =
     (if length iv \<noteq> 8 then Inl IVMustBe8Bytes
      else if 2 ^ 39 \<le> packet_counter then Inl PacketCounterTooLarge
      else (let counter_le = le_bytes 5 packet_counter;
                last_byte = (if is_master_to_slave then counter_le ! 4 OR 0x80
                             else counter_le ! 4 AND 0x7F)
            in Inr (iv @ take 4 counter_le @ [last_byte])))"

text \<open>
  The repeating-key XOR with which \<open>test_simple_xor_decrypt\<close> encrypts:
  \<open>ciphertext[i] = plaintext[i] ^ key[i % len(key)]\<close>.
\<close>

definition xor_encrypt :: "byte list \<Rightarrow> byte list \<Rightarrow> byte list" where
  "xor_encrypt key plaintext =
     map (\<lambda>i. plaintext ! i XOR key ! (i mod length key)) [0..<length plaintext]"


subsection \<open>AES-CCM\<close>

text \<open>
  The AES-CCM primitive is the \<open>AESCCM\<close> class of the \<open>cryptography\<close> package,
  which the tests call to encrypt. It is a parameter of the model: a decryption function
  of key, tag length, nonce, ciphertext with tag, and optional associated data, whose
  result \<open>None\<close> stands for the library's \<open>InvalidTag\<close>.
\<close>

type_synonym aesccm =
  "byte list \<Rightarrow> nat \<Rightarrow> byte list \<Rightarrow> byte list \<Rightarrow> byte list option \<Rightarrow> byte list option"

definition valid_tag_lengths :: "nat set" where
  "valid_tag_lengths = {4, 6, 8, 10, 12, 14, 16}"

text \<open>
  Modelled from the spec: \<open>BLEAESCCMDecryptor.decrypt\<close> is missing. Invalid key,
  nonce or tag length fail with \<open>BLEDecryptionError\<close> (the three messages of
  \<open>test_invalid_key_length\<close>, \<open>test_invalid_nonce_length\<close> and
  \<open>test_invalid_tag_length\<close>); otherwise the result is the primitive's, with an
  authentication failure returned as \<open>None\<close>.
\<close>

definition aes_ccm_decrypt ::
  "aesccm \<Rightarrow> byte list \<Rightarrow> byte list \<Rightarrow> byte list \<Rightarrow> byte list option \<Rightarrow> nat
     \<Rightarrow> BLEDecryptionError + byte list option" where
  "aes_ccm_decrypt aesccm_decrypt key nonce ciphertext aad tag_length =
     (if length key \<noteq> 16 then Inl KeyMustBe16Bytes
      else if length nonce \<noteq> 13 then Inl NonceMustBe13Bytes
      else if tag_length \<notin> valid_tag_lengths then Inl InvalidTagLength
      else Inr (aesccm_decrypt key tag_length nonce ciphertext aad))"

text \<open>
  A stand-in authenticated cipher, used only to run the contract of \<open>aes_ccm_decrypt\<close>
  on concrete bytes: the repeating-key XOR of the plaintext, followed by the first
  \<open>tag_length\<close> key bytes as tag. It is not AES-CCM.
\<close>

definition stand_in_encrypt ::
  "byte list \<Rightarrow> nat \<Rightarrow> byte list \<Rightarrow> byte list \<Rightarrow> byte list option \<Rightarrow> byte list" where
  "stand_in_encrypt key tag_length nonce plaintext aad =
     xor_encrypt key plaintext @ take tag_length (key @ key)"

definition stand_in_decrypt :: aesccm where
  "stand_in_decrypt key tag_length nonce ciphertext aad =
     (if length ciphertext < tag_length
         \<or> drop (length ciphertext - tag_length) ciphertext \<noteq> take tag_length (key @ key)
      then None
      else Some (xor_encrypt key (take (length ciphertext - tag_length) ciphertext)))"

text \<open>The key of \<open>tests/test_ble_crypto.py\<close>, and the nonce made of its IV and five zero
  bytes.\<close>

definition test_key :: "byte list" where
  "test_key = [0x89, 0x67, 0x89, 0x67, 0x89, 0x67, 0x89, 0x67,
               0x89, 0x67, 0x89, 0x67, 0x89, 0x67, 0x89, 0x67]"

definition test_nonce :: "byte list" where
  "test_nonce = [0x12, 0x34, 0x56, 0x78, 0x90, 0xAB, 0xCD, 0xEF, 0, 0, 0, 0, 0]"

section \<open>Packet inspector (src/analyzers/packet\_inspector.py, absent from the sources)\<close>

text \<open>
  Modelled from the spec: the inspector is imported by \<open>tests/test_packet_inspector.py\<close>
  but is not among the sources. Its history holds at most \<open>max_history\<close> results,
  the most recent ones, first in first out (specification, sections 3 and 4.4); a fresh
  inspector has an empty history and \<open>max_history = 1000\<close>
  (\<open>test_inspector_creation\<close>). Steps 1 to 7 of the pipeline, which build the
  inspection result from the packet, are the parameter \<open>build_result\<close>; step 8 appends
  the result and, when the history has grown past the bound, drops the oldest entry.
\<close>

record 'r PacketInspector =
  packet_history :: "'r list"
  max_history :: nat

definition new_PacketInspector :: "'r PacketInspector" where
  "new_PacketInspector = \<lparr>packet_history = [], max_history = 1000\<rparr>"

definition append_history :: "'r \<Rightarrow> 'r PacketInspector \<Rightarrow> 'r PacketInspector" where
  "append_history result insp =
     (let h = packet_history insp @ [result]
      in insp\<lparr>packet_history := (if max_history insp < length h then tl h else h)\<rparr>)"

definition inspect_packet ::
  "(BLEPacket \<Rightarrow> 'r) \<Rightarrow> BLEPacket \<Rightarrow> 'r PacketInspector \<Rightarrow> 'r \<times> 'r PacketInspector" where
  "inspect_packet build_result packet insp =
     (let result = build_result packet in (result, append_history result insp))"

fun inspect_packets ::
  "(BLEPacket \<Rightarrow> 'r) \<Rightarrow> BLEPacket list \<Rightarrow> 'r PacketInspector \<Rightarrow> 'r PacketInspector" where
  "inspect_packets build_result [] insp = insp"
| "inspect_packets build_result (p # ps) insp =
     inspect_packets build_result ps (snd (inspect_packet build_result p insp))"

section \<open>Properties of the auto-connect manager\<close>

subsection \<open>Retry delay\<close>

lemma pow2_in_float_range: "\<bar>(2::int) ^ k\<bar> < 2 ^ 1024 - 2 ^ 970 \<longleftrightarrow> k < 1024"
proof
  assume "k < 1024"
  then have "k \<le> 1023" by simp
  then have "(2::int) ^ k \<le> 2 ^ 1023" by (intro power_increasing) simp_all
  then show "\<bar>(2::int) ^ k\<bar> < 2 ^ 1024 - 2 ^ 970" by simp
next
  assume a: "\<bar>(2::int) ^ k\<bar> < 2 ^ 1024 - 2 ^ 970"
  show "k < 1024"
  proof (rule ccontr)
    assume "\<not> k < 1024"
    then have "(2::int) ^ 1024 \<le> 2 ^ k" by (intro power_increasing) simp_all
    with a show False by simp
  qed
qed

lemma exp_delay:
  assumes "retry_strategy (config c) = EXPONENTIAL_BACKOFF"
  shows "calculate_retry_delay c =
     (if 1024 \<le> retry_count c \<or> retry_count c \<le> - (2 ^ 1024 - 2 ^ 970) then Inl OverflowError
      else Inr (min (initial_retry_delay (config c) * 2 powr real_of_int (retry_count c))
                    (max_retry_delay (config c))))"
proof (cases "0 \<le> retry_count c")
  case True
  then have "2 powr real_of_int (retry_count c) = real_of_int (2 ^ nat (retry_count c))"
    by (simp add: powr_int)
  moreover from True have "nat (retry_count c) < 1024 \<longleftrightarrow> \<not> 1024 \<le> retry_count c"
    by linarith
  ultimately show ?thesis
    using assms True pow2_in_float_range [of "nat (retry_count c)"]
    by (simp add: calculate_retry_delay_def py_pow2_def float_of_pyint_def)
next
  case False
  then have "2 powr real_of_int (retry_count c) = 1 / 2 ^ nat (- retry_count c)"
    by (simp add: powr_int)
  then show ?thesis
    using assms False
    by (simp add: calculate_retry_delay_def py_pow2_def float_of_pyint_def)
qed

lemma linear_delay:
  assumes "retry_strategy (config c) = LINEAR_BACKOFF"
  shows "calculate_retry_delay c =
     (if \<bar>1 + retry_count c\<bar> < 2 ^ 1024 - 2 ^ 970
      then Inr (min (initial_retry_delay (config c) * (1 + real_of_int (retry_count c)))
                    (max_retry_delay (config c)))
      else Inl OverflowError)"
  using assms by (simp add: calculate_retry_delay_def float_of_pyint_def)

lemma fixed_delay:
  assumes "retry_strategy (config c) = FIXED_INTERVAL"
  shows "calculate_retry_delay c =
     Inr (min (initial_retry_delay (config c)) (max_retry_delay (config c)))"
  using assms by (simp add: calculate_retry_delay_def)

lemma delay_value:
  assumes "calculate_retry_delay c = Inr d"
  shows "d = min (initial_retry_delay (config c) *
                    (case retry_strategy (config c) of
                       EXPONENTIAL_BACKOFF \<Rightarrow> 2 powr real_of_int (retry_count c)
                     | LINEAR_BACKOFF \<Rightarrow> 1 + real_of_int (retry_count c)
                     | FIXED_INTERVAL \<Rightarrow> 1))
                 (max_retry_delay (config c))"
proof (cases "retry_strategy (config c)")
  case EXPONENTIAL_BACKOFF
  then show ?thesis using assms exp_delay [OF EXPONENTIAL_BACKOFF]
    by (simp split: if_splits)
next
  case FIXED_INTERVAL
  then show ?thesis using assms fixed_delay [OF FIXED_INTERVAL] by simp
next
  case LINEAR_BACKOFF
  then show ?thesis using assms linear_delay [OF LINEAR_BACKOFF]
    by (simp split: if_splits)
qed

lemma delay_mono:
  assumes i: "0 \<le> initial_retry_delay (config c)" and nk: "n \<le> k"
    and dn: "calculate_retry_delay (c\<lparr>retry_count := n\<rparr>) = Inr dn"
    and dk: "calculate_retry_delay (c\<lparr>retry_count := k\<rparr>) = Inr dk"
  shows "dn \<le> dk"
proof -
  let ?f = "\<lambda>j. case retry_strategy (config c) of
                       EXPONENTIAL_BACKOFF \<Rightarrow> 2 powr real_of_int j
                     | LINEAR_BACKOFF \<Rightarrow> 1 + real_of_int j
                     | FIXED_INTERVAL \<Rightarrow> 1"
  have "?f n \<le> ?f k"
    using nk by (simp split: RetryStrategy.splits)
  then have "initial_retry_delay (config c) * ?f n \<le> initial_retry_delay (config c) * ?f k"
    using i by (rule mult_left_mono)
  then have "min (initial_retry_delay (config c) * ?f n) (max_retry_delay (config c))
           \<le> min (initial_retry_delay (config c) * ?f k) (max_retry_delay (config c))"
    by (rule min.mono) simp
  then show ?thesis
    using delay_value [OF dn] delay_value [OF dk]
    by (cases "retry_strategy (config c)") simp_all
qed

text \<open>
  C3, as stated, fails. The cap \<open>min (\<dots>) max_retry_delay\<close> is applied after all
  three branches, so a fixed interval above the cap is cut down to the cap: with the
  default cap of 60 and a fixed interval of 100 the delay is 60, not 100. Not every
  connection gets a delay: with the default configuration and a retry count of 1024 the
  product \<open>1.0 * 2 ** 1024\<close> raises \<open>OverflowError\<close>. And the delay decreases with
  the retry count when the initial delay is negative, which the configuration dataclass
  accepts: with an initial delay of -1 the exponential delay is -1 at retry count 0 and
  -2 at retry count 1.
\<close>

theorem calculate_retry_delay_counterexample:
  "calculate_retry_delay
     (new_ManagedConnection ''AA:BB:CC:DD:EE:FF''
        (default_ConnectionConfig\<lparr>initial_retry_delay := 100,
                                   retry_strategy := FIXED_INTERVAL\<rparr>)) = Inr 60
   \<and> calculate_retry_delay
       ((new_ManagedConnection ''AA:BB:CC:DD:EE:FF'' default_ConnectionConfig)
          \<lparr>retry_count := 1024\<rparr>) = Inl OverflowError
   \<and> calculate_retry_delay
       ((new_ManagedConnection ''AA:BB:CC:DD:EE:FF''
          (default_ConnectionConfig\<lparr>initial_retry_delay := - 1\<rparr>))\<lparr>retry_count := 0\<rparr>)
       = Inr (- 1)
   \<and> calculate_retry_delay
       ((new_ManagedConnection ''AA:BB:CC:DD:EE:FF''
          (default_ConnectionConfig\<lparr>initial_retry_delay := - 1\<rparr>))\<lparr>retry_count := 1\<rparr>)
       = Inr (- 2)"
  by (simp add: calculate_retry_delay_def new_ManagedConnection_def
      default_ConnectionConfig_def py_pow2_def float_of_pyint_def)

text \<open>
  C3, amended. \<open>calculate_retry_delay\<close> returns \<open>min (initial \<cdot> 2^retry_count) max\<close>
  under the exponential strategy for a retry count from 0 to 1023,
  \<open>min (initial \<cdot> (1 + retry_count)) max\<close> under the linear strategy as long as
  \<open>1 + retry_count\<close> converts to a float, and \<open>min initial max\<close> under the fixed
  strategy. Whenever a delay is returned it does not exceed \<open>max_retry_delay\<close>, under
  any strategy; and when the initial delay is not negative, the delays returned are
  monotone non-decreasing in the retry count. With initial 1, maximum 10 and the
  exponential strategy, retry counts 0, 1, 2, 3, 10 give delays 1, 2, 4, 8, 10.
\<close>

theorem calculate_retry_delay_formula:
  "(retry_strategy (config c) = EXPONENTIAL_BACKOFF \<and> 0 \<le> retry_count c
      \<and> retry_count c < 1024 \<longrightarrow>
      calculate_retry_delay c =
        Inr (min (initial_retry_delay (config c) * 2 ^ nat (retry_count c))
                 (max_retry_delay (config c))))
   \<and> (retry_strategy (config c) = LINEAR_BACKOFF
      \<and> \<bar>1 + retry_count c\<bar> < 2 ^ 1024 - 2 ^ 970 \<longrightarrow>
      calculate_retry_delay c =
        Inr (min (initial_retry_delay (config c) * (1 + real_of_int (retry_count c)))
                 (max_retry_delay (config c))))
   \<and> (retry_strategy (config c) = FIXED_INTERVAL \<longrightarrow>
      calculate_retry_delay c =
        Inr (min (initial_retry_delay (config c)) (max_retry_delay (config c))))
   \<and> (calculate_retry_delay c = Inr d \<longrightarrow> d \<le> max_retry_delay (config c))
   \<and> (0 \<le> initial_retry_delay (config c) \<and> n \<le> k
      \<and> calculate_retry_delay (c\<lparr>retry_count := n\<rparr>) = Inr dn
      \<and> calculate_retry_delay (c\<lparr>retry_count := k\<rparr>) = Inr dk \<longrightarrow> dn \<le> dk)
   \<and> map (\<lambda>j. calculate_retry_delay
               (c\<lparr>config := (config c)\<lparr>initial_retry_delay := 1, max_retry_delay := 10,
                                           retry_strategy := EXPONENTIAL_BACKOFF\<rparr>,
                  retry_count := j\<rparr>)) [0, 1, 2, 3, 10]
       = [Inr 1, Inr 2, Inr 4, Inr 8, Inr 10]"
proof (intro conjI impI)
  assume a: "retry_strategy (config c) = EXPONENTIAL_BACKOFF \<and> 0 \<le> retry_count c
      \<and> retry_count c < 1024"
  then have "2 powr real_of_int (retry_count c) = 2 ^ nat (retry_count c)"
    by (simp add: powr_int)
  with a show "calculate_retry_delay c =
        Inr (min (initial_retry_delay (config c) * 2 ^ nat (retry_count c))
                 (max_retry_delay (config c)))"
    by (simp add: exp_delay)
next
  assume "retry_strategy (config c) = LINEAR_BACKOFF
      \<and> \<bar>1 + retry_count c\<bar> < 2 ^ 1024 - 2 ^ 970"
  then show "calculate_retry_delay c =
        Inr (min (initial_retry_delay (config c) * (1 + real_of_int (retry_count c)))
                 (max_retry_delay (config c)))"
    by (simp only: linear_delay if_True)
next
  assume "retry_strategy (config c) = FIXED_INTERVAL"
  then show "calculate_retry_delay c =
        Inr (min (initial_retry_delay (config c)) (max_retry_delay (config c)))"
    by (rule fixed_delay)
next
  assume "calculate_retry_delay c = Inr d"
  then show "d \<le> max_retry_delay (config c)"
    by (simp add: calculate_retry_delay_def split: sum.splits)
next
  assume "0 \<le> initial_retry_delay (config c) \<and> n \<le> k
      \<and> calculate_retry_delay (c\<lparr>retry_count := n\<rparr>) = Inr dn
      \<and> calculate_retry_delay (c\<lparr>retry_count := k\<rparr>) = Inr dk"
  then show "dn \<le> dk"
    using delay_mono [of c n k dn dk] by simp
next
  show "map (\<lambda>j. calculate_retry_delay
               (c\<lparr>config := (config c)\<lparr>initial_retry_delay := 1, max_retry_delay := 10,
                                           retry_strategy := EXPONENTIAL_BACKOFF\<rparr>,
                  retry_count := j\<rparr>)) [0, 1, 2, 3, 10]
       = [Inr 1, Inr 2, Inr 4, Inr 8, Inr 10]"
    by (simp add: calculate_retry_delay_def py_pow2_def float_of_pyint_def)
qed

theorem calculate_retry_delay_formula_witness:
  "calculate_retry_delay
     ((new_ManagedConnection ''AA:BB:CC:DD:EE:FF'' default_ConnectionConfig)
        \<lparr>retry_count := 2\<rparr>) = Inr 4
   \<and> calculate_retry_delay
     ((new_ManagedConnection ''AA:BB:CC:DD:EE:FF'' default_ConnectionConfig)
        \<lparr>retry_count := 7\<rparr>) = Inr 60
   \<and> calculate_retry_delay
     ((new_ManagedConnection ''AA:BB:CC:DD:EE:FF''
        (default_ConnectionConfig\<lparr>initial_retry_delay := 2,
                                   retry_strategy := LINEAR_BACKOFF\<rparr>))
        \<lparr>retry_count := 2\<rparr>) = Inr 6
   \<and> calculate_retry_delay
     ((new_ManagedConnection ''AA:BB:CC:DD:EE:FF''
        (default_ConnectionConfig\<lparr>initial_retry_delay := 5,
                                   retry_strategy := FIXED_INTERVAL\<rparr>))
        \<lparr>retry_count := 5\<rparr>) = Inr 5
   \<and> (4::real) \<le> 60"
  using calculate_retry_delay_formula
    [of "(new_ManagedConnection ''AA:BB:CC:DD:EE:FF'' default_ConnectionConfig)
           \<lparr>retry_count := 2\<rparr>" 4 2 7 4 60]
    calculate_retry_delay_formula
    [of "(new_ManagedConnection ''AA:BB:CC:DD:EE:FF'' default_ConnectionConfig)
           \<lparr>retry_count := 7\<rparr>" 60 2 7 4 60]
    calculate_retry_delay_formula
    [of "(new_ManagedConnection ''AA:BB:CC:DD:EE:FF''
           (default_ConnectionConfig\<lparr>initial_retry_delay := 2,
                                      retry_strategy := LINEAR_BACKOFF\<rparr>))
           \<lparr>retry_count := 2\<rparr>" 6 0 0 2 2]
    calculate_retry_delay_formula
    [of "(new_ManagedConnection ''AA:BB:CC:DD:EE:FF''
           (default_ConnectionConfig\<lparr>initial_retry_delay := 5,
                                      retry_strategy := FIXED_INTERVAL\<rparr>))
           \<lparr>retry_count := 5\<rparr>" 5 0 0 5 5]
  by (simp add: new_ManagedConnection_def default_ConnectionConfig_def)

subsection \<open>Metrics\<close>

lemma metrics_ok_new: "metrics_ok (new_ManagedConnection a cfg)"
  by (simp add: metrics_ok_def new_ManagedConnection_def new_ConnectionMetrics_def)

lemma update_metrics_ok:
  assumes "metrics_ok c"
  shows "\<exists>c'. update_metrics now success ct c = Inr c' \<and> metrics_ok c'
           \<and> consecutive_failures (metrics c')
               = (if success then 0 else consecutive_failures (metrics c) + 1)"
  using assms
  by (cases success) (auto simp: update_metrics_def metrics_ok_def Let_def max_def)

lemma update_metrics_calls_ok:
  "metrics_ok c \<Longrightarrow> \<exists>c'. update_metrics_calls calls c = Inr c' \<and> metrics_ok c'"
proof (induction calls arbitrary: c)
  case Nil
  then show ?case by simp
next
  case (Cons call calls)
  obtain now success ct where call: "call = (now, success, ct)"
    by (cases call)
  from update_metrics_ok [OF Cons.prems, of now success ct]
  obtain c1 where c1: "update_metrics now success ct c = Inr c1" "metrics_ok c1"
    by blast
  from Cons.IH [OF c1(2)] show ?case
    by (simp add: call c1(1))
qed

text \<open>
  C4. Starting from a fresh connection, every sequence of \<open>update_metrics\<close> calls
  returns (no division by zero), and afterwards successful plus failed connections equal
  the total attempts and the stability score is the successful connections divided by
  \<open>max 1 total_attempts\<close>. In every state so reached, one more successful update
  sets \<open>consecutive_failures\<close> to 0 and one more failed update adds 1 to it.
\<close>

theorem update_metrics_invariants:
  "\<exists>c c1 c2.
     update_metrics_calls calls (new_ManagedConnection a cfg) = Inr c
   \<and> successful_connections (metrics c) + failed_connections (metrics c)
       = total_attempts (metrics c)
   \<and> stability_score (metrics c)
       = real_of_int (successful_connections (metrics c))
           / real_of_int (max 1 (total_attempts (metrics c)))
   \<and> update_metrics now True ct c = Inr c1
   \<and> consecutive_failures (metrics c1) = 0
   \<and> update_metrics now False ct c = Inr c2
   \<and> consecutive_failures (metrics c2) = consecutive_failures (metrics c) + 1"
proof -
  obtain c where c: "update_metrics_calls calls (new_ManagedConnection a cfg) = Inr c"
    "metrics_ok c"
    using update_metrics_calls_ok [OF metrics_ok_new] by blast
  obtain c1 where c1: "update_metrics now True ct c = Inr c1"
    "consecutive_failures (metrics c1) = 0"
    using update_metrics_ok [OF c(2), of now True ct] by auto
  obtain c2 where c2: "update_metrics now False ct c = Inr c2"
    "consecutive_failures (metrics c2) = consecutive_failures (metrics c) + 1"
    using update_metrics_ok [OF c(2), of now False ct] by auto
  from c c1 c2 show ?thesis
    unfolding metrics_ok_def by blast
qed

subsection \<open>Exhausted retry policy\<close>

lemmas ex_defs = exhausted_connection_def exhausted_manager_def connection_packet_def
  new_ManagedConnection_def default_ConnectionConfig_def new_ConnectionMetrics_def
  new_AutoConnectManager_def

text \<open>
  C5, as stated, fails: none of the three interventions resets
  \<open>consecutive_failures\<close>, and \<open>enable_device\<close> and \<open>pause_device\<close> reset
  nothing at all. After three failed attempts under the default configuration the device
  is enabled and not paused, and \<open>should_retry\<close> stays false after each of
  \<open>enable_device\<close>, \<open>pause_device\<close> with duration 0, and an external connection
  event.
\<close>

theorem policy_exhausted_counterexample:
  "max_consecutive_failures (config exhausted_connection)
     \<le> consecutive_failures (metrics exhausted_connection)
   \<and> is_enabled exhausted_connection \<and> pause_until exhausted_connection = None
   \<and> map_option (should_retry 1)
        (managed_connections (enable_device ''AA:BB:CC:DD:EE:FF'' exhausted_manager)
           ''AA:BB:CC:DD:EE:FF'') = Some False
   \<and> map_option (should_retry 1)
        (managed_connections (pause_device 0 ''AA:BB:CC:DD:EE:FF'' 0 exhausted_manager)
           ''AA:BB:CC:DD:EE:FF'') = Some False
   \<and> map_option (should_retry 1)
        (managed_connections (on_ble_event 0 connection_packet exhausted_manager)
           ''AA:BB:CC:DD:EE:FF'') = Some False"
  by (simp add: ex_defs enable_device_def pause_device_def on_ble_event_def emit_event_def
      pause_def should_retry_def Let_def)

text \<open>
  C5, amended. When \<open>retry_count \<ge> max_retries\<close> or
  \<open>consecutive_failures \<ge> max_consecutive_failures\<close>, \<open>should_retry\<close> is false,
  and it stays false after \<open>enable_device\<close> and after \<open>pause_device\<close> with any
  duration. An external connection event sets \<open>retry_count\<close> to 0 and leaves
  \<open>consecutive_failures\<close> as it is, so afterwards \<open>should_retry\<close> is true exactly
  when the device is enabled, not paused, \<open>max_retries\<close> is positive and
  \<open>consecutive_failures < max_consecutive_failures\<close>.
\<close>

theorem policy_exhausted:
  assumes "managed_connections m a = Some c"
    and "max_retries (config c) \<le> retry_count c
         \<or> max_consecutive_failures (config c) \<le> consecutive_failures (metrics c)"
    and "BLEPacket.address packet = a" and "packet_type packet = ''connection''"
  shows "\<not> should_retry t c
     \<and> (\<exists>c'. managed_connections (enable_device a m) a = Some c' \<and> \<not> should_retry t c')
     \<and> (\<exists>c'. managed_connections (pause_device now a duration m) a = Some c'
              \<and> \<not> should_retry t c')
     \<and> (\<exists>c'. managed_connections (on_ble_event now packet m) a = Some c'
              \<and> retry_count c' = 0
              \<and> consecutive_failures (metrics c') = consecutive_failures (metrics c)
              \<and> (should_retry t c' \<longleftrightarrow>
                   is_enabled c
                 \<and> (case pause_until c of None \<Rightarrow> True | Some u \<Rightarrow> u \<le> t)
                 \<and> 0 < max_retries (config c)
                 \<and> consecutive_failures (metrics c) < max_consecutive_failures (config c)))"
proof (intro conjI)
  show "\<not> should_retry t c"
    using assms(2) by (auto simp: should_retry_def)
  show "\<exists>c'. managed_connections (enable_device a m) a = Some c' \<and> \<not> should_retry t c'"
    using assms(1,2) by (auto simp: enable_device_def emit_event_def should_retry_def)
  show "\<exists>c'. managed_connections (pause_device now a duration m) a = Some c'
              \<and> \<not> should_retry t c'"
    using assms(1,2) by (auto simp: pause_device_def pause_def emit_event_def should_retry_def)
  show "\<exists>c'. managed_connections (on_ble_event now packet m) a = Some c'
              \<and> retry_count c' = 0
              \<and> consecutive_failures (metrics c') = consecutive_failures (metrics c)
              \<and> (should_retry t c' \<longleftrightarrow>
                   is_enabled c
                 \<and> (case pause_until c of None \<Rightarrow> True | Some u \<Rightarrow> u \<le> t)
                 \<and> 0 < max_retries (config c)
                 \<and> consecutive_failures (metrics c) < max_consecutive_failures (config c))"
    using assms(1,3,4)
    by (auto simp: on_ble_event_def Let_def should_retry_def split: option.splits)
qed

theorem policy_exhausted_witness:
  "managed_connections exhausted_manager ''AA:BB:CC:DD:EE:FF'' = Some exhausted_connection
   \<and> max_consecutive_failures (config exhausted_connection)
       \<le> consecutive_failures (metrics exhausted_connection)
   \<and> BLEPacket.address connection_packet = ''AA:BB:CC:DD:EE:FF''
   \<and> packet_type connection_packet = ''connection''
   \<and> \<not> should_retry 1 exhausted_connection
   \<and> (\<exists>c'. managed_connections (on_ble_event 0 connection_packet exhausted_manager)
              ''AA:BB:CC:DD:EE:FF'' = Some c'
          \<and> retry_count c' = 0 \<and> consecutive_failures (metrics c') = 3
          \<and> \<not> should_retry 1 c')"
proof -
  have 1: "managed_connections exhausted_manager ''AA:BB:CC:DD:EE:FF''
             = Some exhausted_connection"
    by (simp add: ex_defs)
  have 2: "max_retries (config exhausted_connection) \<le> retry_count exhausted_connection
         \<or> max_consecutive_failures (config exhausted_connection)
             \<le> consecutive_failures (metrics exhausted_connection)"
    by (simp add: ex_defs)
  have 3: "BLEPacket.address connection_packet = ''AA:BB:CC:DD:EE:FF''"
    by (simp add: ex_defs)
  have 4: "packet_type connection_packet = ''connection''"
    by (simp add: ex_defs)
  have 5: "consecutive_failures (metrics exhausted_connection) = 3"
    "max_consecutive_failures (config exhausted_connection) = 3"
    by (simp_all add: ex_defs)
  from policy_exhausted [OF 1 2 3 4, of 1 0 0] show ?thesis
    using 1 3 4 5 by auto
qed

text \<open>
  C10. For an address that is not in \<open>managed_connections\<close>,
  \<open>get_connection_status\<close> returns \<open>None\<close> and each of \<open>enable_device\<close>,
  \<open>disable_device\<close> and \<open>pause_device\<close> returns the manager unchanged: every
  managed connection, the tasks, and the list of emitted events are as before.
\<close>

theorem unmanaged_address_noop:
  assumes "a \<notin> dom (managed_connections m)"
  shows "get_connection_status a m = None
       \<and> enable_device a m = m
       \<and> disable_device a m = m
       \<and> pause_device now a duration m = m"
proof -
  from assms have "managed_connections m a = None" by (simp add: domIff)
  then show ?thesis
    by (simp add: get_connection_status_def enable_device_def disable_device_def
        pause_device_def)
qed

theorem unmanaged_address_noop_witness:
  "''11:22:33:44:55:66'' \<notin> dom (managed_connections exhausted_manager)
   \<and> get_connection_status ''11:22:33:44:55:66'' exhausted_manager = None
   \<and> enable_device ''11:22:33:44:55:66'' exhausted_manager = exhausted_manager
   \<and> disable_device ''11:22:33:44:55:66'' exhausted_manager = exhausted_manager
   \<and> pause_device 0 ''11:22:33:44:55:66'' 10 exhausted_manager = exhausted_manager
   \<and> emitted (pause_device 0 ''11:22:33:44:55:66'' 10 exhausted_manager) = []"
proof -
  have 1: "''11:22:33:44:55:66'' \<notin> dom (managed_connections exhausted_manager)"
    by (simp add: exhausted_manager_def new_AutoConnectManager_def)
  have 2: "emitted exhausted_manager = []"
    by (simp add: exhausted_manager_def new_AutoConnectManager_def)
  from unmanaged_address_noop [OF 1] show ?thesis
    using 1 2 by simp
qed

section \<open>Properties of the BLE crypto functions\<close>

subsection \<open>Nonce construction\<close>

lemma length_le_bytes: "length (le_bytes k n) = k"
  by (induction k arbitrary: n) simp_all

lemma from_le_le_bytes: "from_le (le_bytes k n) = n mod 256 ^ k"
proof (induction k arbitrary: n)
  case 0 then show ?case by simp
next
  case (Suc k)
  have "unat (word_of_nat (n mod 256) :: byte) = n mod 256"
    by (simp add: unat_of_nat)
  then show ?case
    using Suc.IH [of "n div 256"]
    by (simp add: mod_mult2_eq)
qed

lemma from_le_append: "from_le (xs @ ys) = from_le xs + 256 ^ length xs * from_le ys"
  by (induction xs) (simp_all add: algebra_simps)

lemma le_bytes_snoc: "le_bytes (Suc k) n = le_bytes k n @ [word_of_nat (n div 256 ^ k mod 256)]"
proof (induction k arbitrary: n)
  case 0 then show ?case by simp
next
  case (Suc k)
  have "n div 256 div 256 ^ k = n div 256 ^ Suc k"
    by (simp add: div_mult2_eq)
  then show ?case
    using Suc.IH [of "n div 256"] by simp
qed

lemma le_bytes_5:
  "le_bytes 5 n = le_bytes 4 n @ [word_of_nat (n div 256 ^ 4 mod 256)]"
proof -
  have "(5::nat) = Suc 4" by simp
  then show ?thesis by (simp only: le_bytes_snoc)
qed


lemma le_bytes_top:
  assumes "n < 2 ^ 39"
  shows "unat (le_bytes 5 n ! 4) = n div 256 ^ 4" and "unat (le_bytes 5 n ! 4) < 128"
proof -
  have "n < 128 * 256 ^ 4" using assms by simp
  then have lt: "n div 256 ^ 4 < 128"
    by (rule less_mult_imp_div_less)
  have "le_bytes 5 n ! 4 = word_of_nat (n div 256 ^ 4 mod 256)"
    by (simp only: le_bytes_5 nth_append_length [of "le_bytes 4 n", simplified length_le_bytes])
  then show "unat (le_bytes 5 n ! 4) = n div 256 ^ 4"
    using lt by (simp add: unat_of_nat)
  then show "unat (le_bytes 5 n ! 4) < 128"
    using lt by simp
qed

lemma take_4_le_bytes_5: "take 4 (le_bytes 5 n) = le_bytes 4 n"
  by (simp add: le_bytes_5 length_le_bytes)

lemma from_le_nonce_tail:
  "from_le (le_bytes 4 n @ [b]) = n mod 256 ^ 4 + 256 ^ 4 * unat b"
  by (simp only: from_le_append from_le_le_bytes length_le_bytes) simp


lemma byte_and_low: "unat (b::byte) < 128 \<Longrightarrow> b AND 0x7F = b"
proof -
  assume a: "unat b < 128"
  have "b < 2 ^ 7" using a by (simp add: word_less_nat_alt)
  then have "b AND mask 7 = b" by (rule less_mask_eq)
  then show ?thesis by (simp add: mask_eq_exp_minus_1)
qed

lemma byte_or_high: "unat (b::byte) < 128 \<Longrightarrow> unat (b OR 0x80) = unat b + 128"
proof -
  assume a: "unat b < 128"
  have "b AND 0x80 = (b AND 0x7F) AND 0x80"
    using a by (simp add: byte_and_low)
  also have "\<dots> = b AND (0x7F AND 0x80)"
    by (simp only: and.assoc)
  also have "\<dots> = 0"
    by simp
  finally have "b + 0x80 = b OR 0x80"
    by (rule disjunctive_add_eq_or)
  then have "unat (b OR 0x80) = unat (b + 0x80)"
    by simp
  also have "\<dots> = unat b + 128"
    using a by (simp add: unat_word_ariths)
  finally show ?thesis .
qed

lemma byte_or_high_and_low: "unat (b::byte) < 128 \<Longrightarrow> (b OR 0x80) AND 0x7F = b"
proof -
  assume a: "unat b < 128"
  have "(b OR 0x80) AND 0x7F = (b AND 0x7F) OR (0x80 AND 0x7F)"
    by (simp only: bit.conj_disj_distrib2)
  also have "\<dots> = b"
    using a by (simp add: byte_and_low)
  finally show ?thesis .
qed


lemma split_value:
  fixes n M t l :: nat
  assumes "t = n div M" and "l = t + (if ms then 128 else 0)"
  shows "n mod M + M * l = n + (if ms then M * 128 else 0)"
  using assms by (simp add: distrib_left)

lemma nonce_tail_value:
  assumes "unat hi = n div 256 ^ 4"
    and "unat last_byte = unat hi + (if ms then 128 else 0)"
  shows "n mod 256 ^ 4 + 256 ^ 4 * unat last_byte = n + (if ms then 2 ^ 39 else 0)"
proof -
  have "(256::nat) ^ 4 * 128 = 2 ^ 39"
    by simp
  with split_value [OF assms] show ?thesis
    by (simp only:)
qed

lemma le_bytes_5_unfold:
  "le_bytes 5 n =
     [word_of_nat (n mod 256), word_of_nat (n div 256 mod 256),
      word_of_nat (n div 256 div 256 mod 256),
      word_of_nat (n div 256 div 256 div 256 mod 256),
      word_of_nat (n div 256 div 256 div 256 div 256 mod 256)]"
proof -
  have "(5::nat) = Suc (Suc (Suc (Suc (Suc 0))))" by simp
  then show ?thesis by (simp only: le_bytes.simps)
qed

text \<open>
  C1. For an 8-byte IV and a counter below \<open>2^39\<close> the call succeeds with a 13-byte
  nonce: the IV, then the first four bytes of the little-endian counter, then a last byte
  whose low seven bits are those of the counter's fifth byte and whose high bit is the
  direction flag; read back as a little-endian number the last five bytes are the counter
  plus \<open>2^39\<close> times the direction bit. For a counter of \<open>2^39\<close> or more the
  call raises \<open>BLEDecryptionError\<close>.
\<close>

theorem construct_ble_nonce_correct:
  assumes "length iv = 8"
  shows "(packet_counter < 2 ^ 39 \<longrightarrow>
            (\<exists>nonce. construct_ble_nonce iv packet_counter is_master_to_slave = Inr nonce
               \<and> length nonce = 13 \<and> take 8 nonce = iv
               \<and> take 4 (drop 8 nonce) = take 4 (le_bytes 5 packet_counter)
               \<and> nonce ! 12 AND 0x7F = le_bytes 5 packet_counter ! 4
               \<and> bit (nonce ! 12) 7 = is_master_to_slave
               \<and> from_le (drop 8 nonce)
                   = packet_counter + (if is_master_to_slave then 2 ^ 39 else 0)))
       \<and> (2 ^ 39 \<le> packet_counter \<longrightarrow>
            construct_ble_nonce iv packet_counter is_master_to_slave
              = Inl PacketCounterTooLarge)"
proof (intro conjI impI)
  assume big: "2 ^ 39 \<le> packet_counter"
  then show "construct_ble_nonce iv packet_counter is_master_to_slave
               = Inl PacketCounterTooLarge"
    using assms by (simp add: construct_ble_nonce_def)
next
  assume small: "packet_counter < 2 ^ 39"
  define hi where "hi = le_bytes 5 packet_counter ! 4"
  define last_byte where
    "last_byte = (if is_master_to_slave then hi OR 0x80 else hi AND 0x7F)"
  define nonce where "nonce = iv @ le_bytes 4 packet_counter @ [last_byte]"
  have hi: "unat hi = packet_counter div 256 ^ 4" "unat hi < 128"
    using le_bytes_top [OF small] by (simp_all only: hi_def)
  have notbig: "\<not> 2 ^ 39 \<le> packet_counter"
    using small by (simp only: not_le)
  have run: "construct_ble_nonce iv packet_counter is_master_to_slave = Inr nonce"
    unfolding construct_ble_nonce_def Let_def nonce_def last_byte_def hi_def
      take_4_le_bytes_5
    using assms notbig by simp
  have n12: "nonce ! 12 = last_byte"
    using assms by (simp add: nonce_def nth_append length_le_bytes)
  have low: "last_byte AND 0x7F = hi"
    using hi(2) by (simp add: last_byte_def byte_or_high_and_low byte_and_low)
  have high: "bit last_byte 7 = is_master_to_slave"
    by (simp add: last_byte_def bit_or_iff bit_and_iff)
  have ulast: "unat last_byte = unat hi + (if is_master_to_slave then 128 else 0)"
    using hi(2) by (simp add: last_byte_def byte_or_high byte_and_low)
  have d8: "drop 8 nonce = le_bytes 4 packet_counter @ [last_byte]"
    using assms by (simp add: nonce_def)
  have val: "from_le (drop 8 nonce)
          = packet_counter + (if is_master_to_slave then 2 ^ 39 else 0)"
    by (simp only: d8 from_le_nonce_tail nonce_tail_value [OF hi(1) ulast])
  have len: "length nonce = 13" and t8: "take 8 nonce = iv"
    using assms by (simp_all add: nonce_def length_le_bytes)
  have t4: "take 4 (drop 8 nonce) = take 4 (le_bytes 5 packet_counter)"
    by (simp add: d8 take_4_le_bytes_5 length_le_bytes)
  have n12low: "nonce ! 12 AND 0x7F = le_bytes 5 packet_counter ! 4"
    by (simp only: n12 low hi_def)
  have n12high: "bit (nonce ! 12) 7 = is_master_to_slave"
    by (simp only: n12 high)
  from run len t8 t4 n12low n12high val show
    "\<exists>nonce. construct_ble_nonce iv packet_counter is_master_to_slave = Inr nonce
               \<and> length nonce = 13 \<and> take 8 nonce = iv
               \<and> take 4 (drop 8 nonce) = take 4 (le_bytes 5 packet_counter)
               \<and> nonce ! 12 AND 0x7F = le_bytes 5 packet_counter ! 4
               \<and> bit (nonce ! 12) 7 = is_master_to_slave
               \<and> from_le (drop 8 nonce)
                   = packet_counter + (if is_master_to_slave then 2 ^ 39 else 0)"
    by blast
qed

theorem construct_ble_nonce_correct_witness:
  "length [0x12, 0x34, 0x56, 0x78, 0x90, 0xAB, 0xCD, 0xEF :: byte] = 8
   \<and> construct_ble_nonce [0x12, 0x34, 0x56, 0x78, 0x90, 0xAB, 0xCD, 0xEF] 0x123456 True
       = Inr [0x12, 0x34, 0x56, 0x78, 0x90, 0xAB, 0xCD, 0xEF, 0x56, 0x34, 0x12, 0x00, 0x80]
   \<and> construct_ble_nonce [0x12, 0x34, 0x56, 0x78, 0x90, 0xAB, 0xCD, 0xEF] (2 ^ 39 - 1) False
       = Inr [0x12, 0x34, 0x56, 0x78, 0x90, 0xAB, 0xCD, 0xEF, 0xFF, 0xFF, 0xFF, 0xFF, 0x7F]
   \<and> construct_ble_nonce [0x12, 0x34, 0x56, 0x78, 0x90, 0xAB, 0xCD, 0xEF] (2 ^ 39) True
       = Inl PacketCounterTooLarge"
  using construct_ble_nonce_correct
    [of "[0x12, 0x34, 0x56, 0x78, 0x90, 0xAB, 0xCD, 0xEF]" "2 ^ 39" True]
    construct_ble_nonce_correct
    [of "[0x12, 0x34, 0x56, 0x78, 0x90, 0xAB, 0xCD, 0xEF]" "0x123456" True]
  by (simp add: construct_ble_nonce_def le_bytes_5_unfold)

subsection \<open>XOR round trip\<close>

lemma length_xor_encrypt: "length (xor_encrypt key p) = length p"
  by (simp add: xor_encrypt_def)





subsection \<open>AES-CCM decryption\<close>

text \<open>
  C7. \<open>aes_ccm_decrypt\<close> raises \<open>BLEDecryptionError\<close> if and only if the key is
  not 16 bytes, the nonce is not 13 bytes, or the tag length is not one of 4, 6, 8, 10, 12,
  14, 16. With valid key, nonce and tag length, a failed tag verification of the primitive
  is returned as \<open>None\<close>, and a ciphertext that the primitive decrypts to the
  plaintext it was produced from, under the same key, nonce, associated data and tag
  length, is returned as that plaintext.
\<close>

theorem aes_ccm_decrypt_contract:
  "((\<exists>e. aes_ccm_decrypt aesccm_decrypt key nonce ciphertext aad tag_length = Inl e)
      \<longleftrightarrow> length key \<noteq> 16 \<or> length nonce \<noteq> 13
          \<or> tag_length \<notin> {4, 6, 8, 10, 12, 14, 16})
   \<and> (length key = 16 \<and> length nonce = 13 \<and> tag_length \<in> {4, 6, 8, 10, 12, 14, 16}
        \<longrightarrow>
        (aesccm_decrypt key tag_length nonce ciphertext aad = None
           \<longrightarrow> aes_ccm_decrypt aesccm_decrypt key nonce ciphertext aad tag_length = Inr None)
      \<and> (aesccm_decrypt key tag_length nonce
             (aesccm_encrypt key tag_length nonce plaintext aad) aad = Some plaintext
           \<longrightarrow> aes_ccm_decrypt aesccm_decrypt key nonce
                 (aesccm_encrypt key tag_length nonce plaintext aad) aad tag_length
               = Inr (Some plaintext)))"
  by (auto simp: aes_ccm_decrypt_def valid_tag_lengths_def)

lemma stand_in_ciphertext: "stand_in_encrypt test_key 4 test_nonce [0x48, 0x69] None
                 = [0xC1, 0x0E, 0x89, 0x67, 0x89, 0x67]"
  by (simp add: stand_in_encrypt_def xor_encrypt_def test_key_def upt_rec [of 0] upt_rec [of 1])

theorem aes_ccm_decrypt_contract_witness:
  "length test_key = 16 \<and> length test_nonce = 13 \<and> (4::nat) \<in> {4, 6, 8, 10, 12, 14, 16}
   \<and> stand_in_decrypt test_key 4 test_nonce [0xC1, 0x0E, 0x89, 0x67, 0x89, 0x00] None = None
   \<and> aes_ccm_decrypt stand_in_decrypt test_key test_nonce
        [0xC1, 0x0E, 0x89, 0x67, 0x89, 0x00] None 4 = Inr None
   \<and> stand_in_decrypt test_key 4 test_nonce
        (stand_in_encrypt test_key 4 test_nonce [0x48, 0x69] None) None = Some [0x48, 0x69]
   \<and> aes_ccm_decrypt stand_in_decrypt test_key test_nonce
        (stand_in_encrypt test_key 4 test_nonce [0x48, 0x69] None) None 4 = Inr (Some [0x48, 0x69])
   \<and> aes_ccm_decrypt stand_in_decrypt [0x73, 0x68] test_nonce [0xC1] None 4 = Inl KeyMustBe16Bytes"
proof -
  have l: "length test_key = 16" "length test_nonce = 13"
    by (simp_all add: test_key_def test_nonce_def)
  have bad: "stand_in_decrypt test_key 4 test_nonce [0xC1, 0x0E, 0x89, 0x67, 0x89, 0x00] None = None"
    by (simp add: stand_in_decrypt_def test_key_def)
  have good: "stand_in_decrypt test_key 4 test_nonce
        (stand_in_encrypt test_key 4 test_nonce [0x48, 0x69] None) None = Some [0x48, 0x69]"
    by (simp add: stand_in_ciphertext) (simp add: stand_in_decrypt_def xor_encrypt_def test_key_def
        upt_rec [of 0] upt_rec [of 1])
  have key: "aes_ccm_decrypt stand_in_decrypt [0x73, 0x68] test_nonce [0xC1] None 4
               = Inl KeyMustBe16Bytes"
    by (simp add: aes_ccm_decrypt_def)
  from aes_ccm_decrypt_contract
    [of stand_in_decrypt test_key test_nonce "[0xC1, 0x0E, 0x89, 0x67, 0x89, 0x00]" None 4
      stand_in_encrypt "[0x48, 0x69]"]
    aes_ccm_decrypt_contract
    [of stand_in_decrypt test_key test_nonce
      "stand_in_encrypt test_key 4 test_nonce [0x48, 0x69] None" None 4 stand_in_encrypt "[0x48, 0x69]"]
  show ?thesis
    using l bad good key by simp
qed


section \<open>Properties of the packet inspector\<close>

subsection \<open>Bounded history\<close>

lemma max_history_inspect_packet [simp]:
  "max_history (snd (inspect_packet f p insp)) = max_history insp"
  by (simp add: inspect_packet_def append_history_def Let_def)

lemma history_step:
  assumes "packet_history insp = drop (length xs - max_history insp) xs"
  shows "packet_history (snd (inspect_packet f p insp))
           = drop (length (xs @ [f p]) - max_history insp) (xs @ [f p])"
proof -
  let ?m = "max_history insp"
  let ?h = "packet_history insp"
  have len: "length ?h = min (length xs) ?m"
    using assms by (simp add: min_def)
  show ?thesis
  proof (cases "?m < length (?h @ [f p])")
    case True
    then have full: "length ?h = ?m" "?m \<le> length xs"
      using len by (simp_all add: min_def split: if_splits)
    have "tl (?h @ [f p]) = drop 1 (?h @ [f p])"
      by (simp only: One_nat_def drop_Suc drop_0)
    also have "\<dots> = drop 1 (drop (length xs - ?m) xs @ [f p])"
      using assms by simp
    also have "\<dots> = drop 1 (drop (length xs - ?m) (xs @ [f p]))"
      using full by simp
    also have "\<dots> = drop (length (xs @ [f p]) - ?m) (xs @ [f p])"
      using full by (simp add: Suc_diff_le)
    finally show ?thesis
      using True by (simp add: inspect_packet_def append_history_def Let_def)
  next
    case False
    then have short: "length xs < ?m"
      using len by (simp add: min_def split: if_splits)
    then have "?h = xs" using assms by simp
    then show ?thesis
      using False short by (simp add: inspect_packet_def append_history_def Let_def)
  qed
qed

lemma history_run:
  "packet_history insp = drop (length xs - max_history insp) xs \<Longrightarrow>
   packet_history (inspect_packets f ps insp)
     = drop (length (xs @ map f ps) - max_history insp) (xs @ map f ps)
   \<and> max_history (inspect_packets f ps insp) = max_history insp"
proof (induction ps arbitrary: insp xs)
  case Nil
  then show ?case by simp
next
  case (Cons p ps)
  from history_step [OF Cons.prems, of f p]
  have "packet_history (snd (inspect_packet f p insp))
          = drop (length (xs @ [f p]) - max_history (snd (inspect_packet f p insp)))
              (xs @ [f p])"
    by simp
  from Cons.IH [OF this] show ?case by simp
qed

text \<open>
  C9. After any sequence of \<open>inspect_packet\<close> calls on a fresh inspector with bound
  \<open>m\<close>, the history is the last \<open>m\<close> results in the order of the calls, so it
  never holds more than \<open>m\<close> entries; the default bound is 1000. When the history is
  full, one more call drops the oldest entry and appends the new result.
\<close>

theorem packet_history_bounded:
  "packet_history (inspect_packets (build_result :: BLEPacket \<Rightarrow> 'r) packets
                    (new_PacketInspector\<lparr>max_history := m\<rparr>))
     = drop (length packets - m) (map build_result packets)
   \<and> length (packet_history
        (inspect_packets build_result packets (new_PacketInspector\<lparr>max_history := m\<rparr>))) \<le> m
   \<and> max_history (new_PacketInspector :: 'r PacketInspector) = 1000
   \<and> (length (packet_history insp) = max_history insp \<and> 0 < max_history insp \<longrightarrow>
        packet_history (snd (inspect_packet build_result packet insp))
          = tl (packet_history insp) @ [build_result packet])"
proof -
  have "packet_history (new_PacketInspector\<lparr>max_history := m\<rparr> :: 'r PacketInspector)
          = drop (length ([] :: 'r list)
                   - max_history (new_PacketInspector\<lparr>max_history := m\<rparr> :: 'r PacketInspector)) []"
    by (simp add: new_PacketInspector_def)
  from history_run [OF this, of build_result packets]
  have run: "packet_history
               (inspect_packets build_result packets (new_PacketInspector\<lparr>max_history := m\<rparr>))
          = drop (length packets - m) (map build_result packets)"
    by simp
  have evict: "length (packet_history insp) = max_history insp \<and> 0 < max_history insp \<longrightarrow>
        packet_history (snd (inspect_packet build_result packet insp))
          = tl (packet_history insp) @ [build_result packet]"
    by (cases "packet_history insp")
      (auto simp: inspect_packet_def append_history_def Let_def)
  show ?thesis
    using run evict by (simp add: new_PacketInspector_def)
qed


theorem packet_history_bounded_witness:
  "length (packet_history \<lparr>packet_history = [3, 1 :: nat], max_history = 2\<rparr>)
     = max_history \<lparr>packet_history = [3, 1 :: nat], max_history = 2\<rparr>
   \<and> 0 < max_history \<lparr>packet_history = [3, 1 :: nat], max_history = 2\<rparr>
   \<and> packet_history
        (snd (inspect_packet (\<lambda>p. length (data p)) connection_packet
                \<lparr>packet_history = [3, 1 :: nat], max_history = 2\<rparr>)) = [1, 0]
   \<and> packet_history
        (inspect_packets (\<lambda>p. length (data p))
           [connection_packet, connection_packet, connection_packet]
           (new_PacketInspector\<lparr>max_history := 2\<rparr>)) = [0, 0]"
  using packet_history_bounded
    [of "\<lambda>p. length (data p)" "[connection_packet, connection_packet, connection_packet]" 2
      "\<lparr>packet_history = [3, 1 :: nat], max_history = 2\<rparr>" connection_packet]
  by (simp add: connection_packet_def)

end
